theory Spec2Isabelle
  imports Main "HOL-Library.Sublist"
begin

section \<open>Video asset manager: the request handlers of server.ts\<close>

text \<open>
  The server keeps no state of its own between requests: everything durable lives in the
  S3-compatible bucket and in the SQLite database. The handlers of \<^verbatim>\<open>server.ts\<close> are
  modelled as functions from the state of these two stores (and the outcome of each
  external call, which the environment decides) to a response and the new state.

  A JavaScript string is a sequence of UTF-16 code units; the model uses \<open>string\<close>, one
  \<open>char\<close> for one code unit. The regular expression of the handlers has no \<open>u\<close> flag, so
  it looks at one code unit at a time, as \<open>map\<close> does here.
\<close>

subsection \<open>Key sanitisation: \<^verbatim>\<open>.replace(/[^a-zA-Z0-9.-]/g, "_")\<close>\<close>

definition allowed :: "char \<Rightarrow> bool" where
  "allowed c =
     (let n = (of_char c :: nat) in
        (97 \<le> n \<and> n \<le> 122) \<or> (65 \<le> n \<and> n \<le> 90) \<or> (48 \<le> n \<and> n \<le> 57)
        \<or> c = CHR ''.'' \<or> c = CHR ''-'')"

definition sanitize :: "string \<Rightarrow> string" where
  "sanitize name = map (\<lambda>c. if allowed c then c else CHR ''_'') name"

subsection \<open>Node's \<^verbatim>\<open>path.extname\<close> (POSIX)\<close>

text \<open>
  \<^verbatim>\<open>path.extname\<close> belongs to the Node runtime. Its POSIX implementation scans the path
  from its last character to its first, with five variables; the record below holds them,
  with \<open>-1\<close> for "not seen yet" as in the original. The scan stops (\<^verbatim>\<open>break\<close>) at the
  first separator left of the last path component.
\<close>

record ext_state =
  startDot :: int
  startPart :: int
  end_i :: int
  matchedSlash :: bool
  preDotState :: int

definition ext_init :: ext_state where
  "ext_init = \<lparr>startDot = -1, startPart = 0, end_i = -1, matchedSlash = True, preDotState = 0\<rparr>"

text \<open>\<open>extname_loop path n s\<close> runs the loop body for \<open>i = n - 1\<close> down to \<open>0\<close>.\<close>

fun extname_loop :: "string \<Rightarrow> nat \<Rightarrow> ext_state \<Rightarrow> ext_state" where
  "extname_loop path 0 s = s"
| "extname_loop path (Suc i) s =
     (let code = path ! i in
      if code = CHR ''/'' then
        (if \<not> matchedSlash s then s\<lparr>startPart := int i + 1\<rparr>
         else extname_loop path i s)
      else
        (let s1 = (if end_i s = -1 then s\<lparr>matchedSlash := False, end_i := int i + 1\<rparr> else s);
             s2 = (if code = CHR ''.'' then
                     (if startDot s1 = -1 then s1\<lparr>startDot := int i\<rparr>
                      else if preDotState s1 \<noteq> 1 then s1\<lparr>preDotState := 1\<rparr>
                      else s1)
                   else if startDot s1 \<noteq> -1 then s1\<lparr>preDotState := -1\<rparr>
                   else s1)
         in extname_loop path i s2))"

definition slice :: "string \<Rightarrow> int \<Rightarrow> int \<Rightarrow> string" where
  "slice path a b = take (nat b - nat a) (drop (nat a) path)"

definition extname :: "string \<Rightarrow> string" where
  "extname path =
     (let s = extname_loop path (length path) ext_init in
      if startDot s = -1 \<or> end_i s = -1 \<or> preDotState s = 0
         \<or> (preDotState s = 1 \<and> startDot s = end_i s - 1 \<and> startDot s = startPart s + 1)
      then []
      else slice path (startDot s) (end_i s))"

subsection \<open>The key a rename computes\<close>

text \<open>
  \<^verbatim>\<open>`videos/${sanitizedNewName}${sanitizedNewName.endsWith(extension) ? '' : extension}`\<close>
\<close>

definition rename_key :: "string \<Rightarrow> string \<Rightarrow> string" where
  "rename_key oldKey newName =
     (let extension = extname oldKey;
          sanitizedNewName = sanitize newName
      in ''videos/'' @ sanitizedNewName
           @ (if suffix extension sanitizedNewName then [] else extension))"

subsection \<open>Configuration, stores and the environment\<close>

text \<open>
  \<^verbatim>\<open>r2Config\<close> is what \<^verbatim>\<open>getR2Config()\<close> returned at start-up: \<^verbatim>\<open>null\<close> or the three
  strings. \<^verbatim>\<open>bucketName\<close> and \<^verbatim>\<open>publicUrl\<close> are the module constants derived from it
  (\<^verbatim>\<open>r2Config?.bucketName || ""\<close>). They are fixed for the life of the process.
\<close>

record r2config =
  cfg_endpoint :: string
  cfg_bucketName :: string
  cfg_publicUrl :: string

definition bucketName :: "r2config option \<Rightarrow> string" where
  "bucketName r2Config = (case r2Config of None \<Rightarrow> [] | Some c \<Rightarrow> cfg_bucketName c)"

definition publicUrl :: "r2config option \<Rightarrow> string" where
  "publicUrl r2Config = (case r2Config of None \<Rightarrow> [] | Some c \<Rightarrow> cfg_publicUrl c)"

text \<open>The guard \<^verbatim>\<open>!r2Config || !bucketName\<close> that opens the three handlers.\<close>

definition not_configured :: "r2config option \<Rightarrow> bool" where
  "not_configured r2Config = (r2Config = None \<or> bucketName r2Config = [])"

type_synonym key = string
type_synonym blob = string
type_synonym js_error = string

text \<open>The commands the handlers send to the bucket, with the fields they set.\<close>

datatype s3_command =
    PutObject string key blob string \<comment> \<open>Bucket, Key, Body, ContentType\<close>
  | DeleteObject string key \<comment> \<open>Bucket, Key\<close>
  | CopyObject string string key \<comment> \<open>Bucket, CopySource, Key\<close>

text \<open>The statements the handlers run that write to the database.\<close>

datatype sql_statement =
    Insert_video_metadata key string string \<comment> \<open>video_key, uploader_id, uploader_name\<close>
  | Insert_upload_history nat \<comment> \<open>size\<close>
  | Delete_video_metadata key
  | Update_video_key key key \<comment> \<open>SET video_key = (first) WHERE video_key = (second)\<close>

datatype effect = S3 s3_command | Sql sql_statement

text \<open>
  The state of the two stores. \<open>video_metadata\<close> is keyed by its primary key
  \<^verbatim>\<open>video_key\<close>; a row of \<open>upload_history\<close> is its size and the \<^verbatim>\<open>YYYY-MM\<close> of its
  timestamp, which is all the quota query reads. \<open>sent\<close> is not part of either store: it
  records every command and statement issued, in order, failed ones included, so that
  "no call was made" and "in this order" can be stated.
\<close>

record world =
  objects :: "key \<rightharpoonup> blob"
  video_metadata :: "key \<rightharpoonup> string \<times> string"
  upload_history :: "(nat \<times> string) list"
  sent :: "effect list"

text \<open>
  What the environment decides for one request: the clock (\<^verbatim>\<open>Date.now()\<close> and the month
  of \<^verbatim>\<open>toISOString()\<close> and of SQLite's \<^verbatim>\<open>CURRENT_TIMESTAMP\<close>, both UTC; a request is
  taken at one instant), and for each command or statement whether it fails and with
  which message. \<open>db_fault\<close> stands for every write failure of the database engine other
  than the primary-key rule, which \<open>db_run\<close> spells out.

  \<open>copy_source\<close> is the store's reading of the \<^verbatim>\<open>CopySource\<close> of a copy: given the bucket
  of the command and the string sent, the key whose object is copied, if the string names
  one. The store decodes the string before it splits it, and the handler sends it as it
  is, so the key read need not be the key written into the string; the statements below
  hold for every such reading. \<open>s3_copy_source\<close> further down is the reading of the
  examples.
\<close>

record env =
  now_ms :: nat
  currentMonth :: string
  s3_fault :: "s3_command \<Rightarrow> js_error option"
  db_fault :: "sql_statement \<Rightarrow> js_error option"
  copy_source :: "string \<Rightarrow> string \<Rightarrow> key option"

subsection \<open>The object store\<close>

text \<open>
  \<^verbatim>\<open>await r2Client.send(command)\<close>: the result is the error thrown, if any, and the world
  after the call. The bucket follows the S3 contract: a put overwrites, a copy needs the
  object its source is read as, the delete of an absent key succeeds.
\<close>

definition r2_send :: "env \<Rightarrow> world \<Rightarrow> s3_command \<Rightarrow> js_error option \<times> world" where
  "r2_send e w c =
     (let w1 = w\<lparr>sent := sent w @ [S3 c]\<rparr> in
      case s3_fault e c of
        Some msg \<Rightarrow> (Some msg, w1)
      | None \<Rightarrow>
          (case c of
             PutObject b k body ct \<Rightarrow> (None, w1\<lparr>objects := (objects w1)(k \<mapsto> body)\<rparr>)
           | DeleteObject b k \<Rightarrow> (None, w1\<lparr>objects := (objects w1)(k := None)\<rparr>)
           | CopyObject b src k \<Rightarrow>
               (case copy_source e b src of
                  None \<Rightarrow> (Some ''The specified key does not exist.'', w1)
                | Some k0 \<Rightarrow>
                    (case objects w1 k0 of
                       None \<Rightarrow> (Some ''The specified key does not exist.'', w1)
                     | Some body \<Rightarrow> (None, w1\<lparr>objects := (objects w1)(k \<mapsto> body)\<rparr>)))))"

subsection \<open>The database\<close>

text \<open>
  \<^verbatim>\<open>db.prepare(sql).run(...)\<close> for the four writing statements. \<^verbatim>\<open>video_key\<close> is the
  primary key of \<^verbatim>\<open>video_metadata\<close>: an insert or an update that would give two rows the
  same key throws.
\<close>

definition db_run :: "env \<Rightarrow> world \<Rightarrow> sql_statement \<Rightarrow> js_error option \<times> world" where
  "db_run e w st =
     (let w1 = w\<lparr>sent := sent w @ [Sql st]\<rparr> in
      case db_fault e st of
        Some msg \<Rightarrow> (Some msg, w1)
      | None \<Rightarrow>
          (case st of
             Insert_video_metadata k uid uname \<Rightarrow>
               (case video_metadata w1 k of
                  Some row \<Rightarrow> (Some ''UNIQUE constraint failed: video_metadata.video_key'', w1)
                | None \<Rightarrow> (None, w1\<lparr>video_metadata := (video_metadata w1)(k \<mapsto> (uid, uname))\<rparr>))
           | Insert_upload_history n \<Rightarrow>
               (None, w1\<lparr>upload_history := upload_history w1 @ [(n, currentMonth e)]\<rparr>)
           | Delete_video_metadata k \<Rightarrow>
               (None, w1\<lparr>video_metadata := (video_metadata w1)(k := None)\<rparr>)
           | Update_video_key new old \<Rightarrow>
               (case video_metadata w1 old of
                  None \<Rightarrow> (None, w1)
                | Some row \<Rightarrow>
                    if new \<noteq> old \<and> video_metadata w1 new \<noteq> None
                    then (Some ''UNIQUE constraint failed: video_metadata.video_key'', w1)
                    else (None, w1\<lparr>video_metadata := ((video_metadata w1)(old := None))(new \<mapsto> row)\<rparr>))))"

text \<open>
  \<^verbatim>\<open>SELECT SUM(size) ... WHERE strftime('%Y-%m', timestamp) = ?\<close>, then \<^verbatim>\<open>total || 0\<close>:
  the sum over no rows is \<^verbatim>\<open>NULL\<close>, read as 0. Sizes are byte counts, far below \<open>2^53\<close>,
  where JavaScript adds and compares numbers exactly; they are natural numbers here.
\<close>

definition month_usage :: "string \<Rightarrow> (nat \<times> string) list \<Rightarrow> nat" where
  "month_usage month h = sum_list (map fst (filter (\<lambda>r. snd r = month) h))"

definition limit :: nat where
  "limit = 10 * 1024 * 1024 * 1024"

subsection \<open>Responses\<close>

datatype response =
    Json_uploaded key string \<comment> \<open>\<^verbatim>\<open>{success: true, key, url}\<close>\<close>
  | Json_success \<comment> \<open>\<^verbatim>\<open>{success: true}\<close>\<close>
  | Json_renamed key \<comment> \<open>\<^verbatim>\<open>{success: true, key}\<close>\<close>
  | Error_response nat string \<comment> \<open>\<^verbatim>\<open>res.status(n).json({error})\<close>\<close>

fun is_success :: "response \<Rightarrow> bool" where
  "is_success (Error_response n m) = False"
| "is_success r = True"

subsection \<open>POST /api/upload\<close>

text \<open>
  \<^verbatim>\<open>req.file\<close> as multer leaves it (absent when the form had no \<^verbatim>\<open>video\<close> part), and the
  two text fields of the form, each a string or absent.
\<close>

record upload_file =
  originalname :: string
  file_size :: nat
  buffer :: blob
  mimetype :: string

record upload_request =
  req_file :: "upload_file option"
  uploaderId :: "string option"
  uploaderName :: "string option"

text \<open>JavaScript truthiness of an optional string: present and not empty.\<close>

fun truthy :: "string option \<Rightarrow> bool" where
  "truthy None = False"
| "truthy (Some s) = (s \<noteq> [])"

text \<open>\<^verbatim>\<open>`${Date.now()}`\<close>: the decimal digits of a non-negative integer.\<close>

function dec_string :: "nat \<Rightarrow> string" where
  "dec_string n =
     (if n < 10 then [char_of (48 + n)]
      else dec_string (n div 10) @ [char_of (48 + n mod 10)])"
  by pat_completeness auto
termination
  by (relation "measure (\<lambda>n. n)") auto

declare dec_string.simps [simp del]

text \<open>
  \<^verbatim>\<open>originalName = file.originalname.replace(...)\<close>, \<^verbatim>\<open>fileName = `${Date.now()}-${originalName}`\<close>,
  \<^verbatim>\<open>key = `videos/${fileName}`\<close>.
\<close>

definition upload_key :: "env \<Rightarrow> upload_file \<Rightarrow> key" where
  "upload_key e f =
     (let originalName = sanitize (originalname f);
          fileName = dec_string (now_ms e) @ ''-'' @ originalName
      in ''videos/'' @ fileName)"

definition upload_video ::
  "r2config option \<Rightarrow> env \<Rightarrow> world \<Rightarrow> upload_request \<Rightarrow> response \<times> world" where
  "upload_video r2Config e w req =
     (if not_configured r2Config then
        (Error_response 500 ''R2 is not configured. Please check your environment variables.'', w)
      else
        (case req_file req of
           None \<Rightarrow> (Error_response 400 ''No file uploaded'', w)
         | Some f \<Rightarrow>
             (let totalUsage = month_usage (currentMonth e) (upload_history w) in
              if totalUsage + file_size f > limit then
                (Error_response 400
                   ''Monthly upload quota exceeded (10GB limit). Please try again next month.'', w)
              else
                (let key = upload_key e f in
                   case r2_send e w (PutObject (bucketName r2Config) key (buffer f) (mimetype f)) of
                     (Some msg, w1) \<Rightarrow> (Error_response 500 msg, w1)
                   | (None, w1) \<Rightarrow>
                       (case (if truthy (uploaderId req) \<and> truthy (uploaderName req)
                              then db_run e w1 (Insert_video_metadata key
                                     (the (uploaderId req)) (the (uploaderName req)))
                              else (None, w1)) of
                          (Some msg, w2) \<Rightarrow> (Error_response 500 msg, w2)
                        | (None, w2) \<Rightarrow>
                            (case db_run e w2 (Insert_upload_history (file_size f)) of
                               (Some msg, w3) \<Rightarrow> (Error_response 500 msg, w3)
                             | (None, w3) \<Rightarrow>
                                 (Json_uploaded key
                                    (if publicUrl r2Config \<noteq> []
                                     then publicUrl r2Config @ ''/'' @ key else []),
                                  w3)))))))"

subsection \<open>DELETE /api/videos/*\<close>

text \<open>\<^verbatim>\<open>req.params[0]\<close> is the part of the path the wildcard matched: a string, maybe empty.\<close>

definition delete_video ::
  "r2config option \<Rightarrow> env \<Rightarrow> world \<Rightarrow> string \<Rightarrow> response \<times> world" where
  "delete_video r2Config e w key =
     (if not_configured r2Config then
        (Error_response 500 ''R2 is not configured. Please check your environment variables.'', w)
      else if key = [] \<or> \<not> prefix ''videos/'' key then
        (Error_response 400 ''Invalid key'', w)
      else
        (case r2_send e w (DeleteObject (bucketName r2Config) key) of
           (Some msg, w1) \<Rightarrow> (Error_response 500 msg, w1)
         | (None, w1) \<Rightarrow>
             (case db_run e w1 (Delete_video_metadata key) of
                (Some msg, w2) \<Rightarrow> (Error_response 500 msg, w2)
              | (None, w2) \<Rightarrow> (Json_success, w2))))"

subsection \<open>PATCH /api/videos/*\<close>

text \<open>
  \<^verbatim>\<open>newName\<close> comes from a JSON body, so it need not be a string. \<open>Falsy\<close> is an absent
  field, \<^verbatim>\<open>null\<close>, \<^verbatim>\<open>false\<close> or \<^verbatim>\<open>0\<close>; \<open>Truthy\<close> is any other value that is not a string
  (a number, \<^verbatim>\<open>true\<close>, an array, an object): it passes the guard, and has no \<^verbatim>\<open>replace\<close>
  method, so the call throws a \<^verbatim>\<open>TypeError\<close> that the handler catches.
\<close>

datatype json_field = Str string | Falsy | Truthy

fun falsy :: "json_field \<Rightarrow> bool" where
  "falsy (Str s) = (s = [])"
| "falsy Falsy = True"
| "falsy Truthy = False"

definition rename_video ::
  "r2config option \<Rightarrow> env \<Rightarrow> world \<Rightarrow> string \<Rightarrow> json_field \<Rightarrow> response \<times> world" where
  "rename_video r2Config e w oldKey newName =
     (if not_configured r2Config then
        (Error_response 500 ''R2 is not configured. Please check your environment variables.'', w)
      else if oldKey = [] \<or> \<not> prefix ''videos/'' oldKey \<or> falsy newName then
        (Error_response 400 ''Invalid request'', w)
      else
        (case newName of
           Str name \<Rightarrow>
             (let newKey = rename_key oldKey name in
              if oldKey = newKey then (Json_renamed oldKey, w)
              else
                (case r2_send e w (CopyObject (bucketName r2Config)
                                     (bucketName r2Config @ ''/'' @ oldKey) newKey) of
                   (Some msg, w1) \<Rightarrow> (Error_response 500 msg, w1)
                 | (None, w1) \<Rightarrow>
                     (case r2_send e w1 (DeleteObject (bucketName r2Config) oldKey) of
                        (Some msg, w2) \<Rightarrow> (Error_response 500 msg, w2)
                      | (None, w2) \<Rightarrow>
                          (case db_run e w2 (Update_video_key newKey oldKey) of
                             (Some msg, w3) \<Rightarrow> (Error_response 500 msg, w3)
                           | (None, w3) \<Rightarrow> (Json_renamed newKey, w3)))))
         | _ \<Rightarrow> (Error_response 500 ''newName.replace is not a function'', w)))"

subsection \<open>Auxiliary notions for the statements below\<close>

text \<open>The three calls of a rename that goes all the way, in the order of the handler.\<close>

definition rename_copy :: "r2config option \<Rightarrow> key \<Rightarrow> key \<Rightarrow> s3_command" where
  "rename_copy r2Config oldKey newKey =
     CopyObject (bucketName r2Config) (bucketName r2Config @ ''/'' @ oldKey) newKey"

definition rename_delete :: "r2config option \<Rightarrow> key \<Rightarrow> s3_command" where
  "rename_delete r2Config oldKey = DeleteObject (bucketName r2Config) oldKey"

definition rename_update :: "key \<Rightarrow> key \<Rightarrow> sql_statement" where
  "rename_update oldKey newKey = Update_video_key newKey oldKey"

definition rename_steps :: "r2config option \<Rightarrow> key \<Rightarrow> key \<Rightarrow> effect list" where
  "rename_steps r2Config oldKey newKey =
     [S3 (rename_copy r2Config oldKey newKey),
      S3 (rename_delete r2Config oldKey),
      Sql (rename_update oldKey newKey)]"

text \<open>The one command of an upload, and of a delete.\<close>

definition upload_put :: "r2config option \<Rightarrow> env \<Rightarrow> upload_file \<Rightarrow> s3_command" where
  "upload_put r2Config e f =
     PutObject (bucketName r2Config) (upload_key e f) (buffer f) (mimetype f)"

definition delete_command :: "r2config option \<Rightarrow> key \<Rightarrow> s3_command" where
  "delete_command r2Config key = DeleteObject (bucketName r2Config) key"

text \<open>
  What a rename moves: the object its copy reads (the old key as the store reads it out
  of the \<^verbatim>\<open>CopySource\<close>), and the metadata table after
  \<^verbatim>\<open>UPDATE video_metadata SET video_key = new WHERE video_key = old\<close>.
\<close>

definition copied_object :: "r2config option \<Rightarrow> env \<Rightarrow> world \<Rightarrow> key \<Rightarrow> blob option" where
  "copied_object r2Config e w oldKey =
     (case copy_source e (bucketName r2Config) (bucketName r2Config @ ''/'' @ oldKey) of
        None \<Rightarrow> None
      | Some k0 \<Rightarrow> objects w k0)"

definition moved_metadata ::
  "(key \<rightharpoonup> string \<times> string) \<Rightarrow> key \<Rightarrow> key \<Rightarrow> (key \<rightharpoonup> string \<times> string)" where
  "moved_metadata m oldKey newKey =
     (case m oldKey of
        None \<Rightarrow> m
      | Some row \<Rightarrow> (m(oldKey := None))(newKey \<mapsto> row))"

text \<open>
  The reading of \<^verbatim>\<open>CopySource\<close> in the examples: percent escapes are decoded (an escape
  that is not two hexadecimal digits is left as it is), then the bucket name and the
  slash are taken off the front.
\<close>

definition hex_val :: "char \<Rightarrow> nat option" where
  "hex_val c =
     (let n = (of_char c :: nat) in
      if 48 \<le> n \<and> n \<le> 57 then Some (n - 48)
      else if 65 \<le> n \<and> n \<le> 70 then Some (n - 55)
      else if 97 \<le> n \<and> n \<le> 102 then Some (n - 87)
      else None)"

fun percent_decode :: "string \<Rightarrow> string" where
  "percent_decode (c # a # b # cs) =
     (if c = CHR ''%'' then
        (case (hex_val a, hex_val b) of
           (Some x, Some y) \<Rightarrow> char_of (16 * x + y) # percent_decode cs
         | _ \<Rightarrow> c # percent_decode (a # b # cs))
      else c # percent_decode (a # b # cs))"
| "percent_decode cs = cs"

fun strip_prefix :: "string \<Rightarrow> string \<Rightarrow> string option" where
  "strip_prefix [] s = Some s"
| "strip_prefix (p # ps) [] = None"
| "strip_prefix (p # ps) (c # cs) = (if p = c then strip_prefix ps cs else None)"

definition s3_copy_source :: "string \<Rightarrow> string \<Rightarrow> key option" where
  "s3_copy_source b src = strip_prefix (b @ ''/'') (percent_decode src)"

text \<open>
  A configured server, a clock, an environment in which no call fails, and a state with
  one stored video, for the concrete instances below.
\<close>

definition ex_config :: "r2config option" where
  "ex_config =
     Some \<lparr>cfg_endpoint = ''https://account.r2.cloudflarestorage.com'',
           cfg_bucketName = ''media'', cfg_publicUrl = ''https://cdn.example.com''\<rparr>"

definition ex_env :: env where
  "ex_env = \<lparr>now_ms = 1700000000000, currentMonth = ''2023-11'',
             s3_fault = (\<lambda>c. None), db_fault = (\<lambda>st. None),
             copy_source = s3_copy_source\<rparr>"

text \<open>
  The same environment with the bucket unreachable, with the database refusing every
  write, with deletes refused by the bucket, and with the clock at the instant whose
  upload key is the key of the stored video.
\<close>

definition ex_env_s3_down :: env where
  "ex_env_s3_down = ex_env\<lparr>s3_fault := (\<lambda>c. Some ''connect ETIMEDOUT'')\<rparr>"

definition ex_env_db_locked :: env where
  "ex_env_db_locked = ex_env\<lparr>db_fault := (\<lambda>st. Some ''database is locked'')\<rparr>"

definition ex_env_delete_denied :: env where
  "ex_env_delete_denied =
     ex_env\<lparr>s3_fault := (\<lambda>c. case c of DeleteObject b k \<Rightarrow> Some ''Access Denied''
                                  | _ \<Rightarrow> None)\<rparr>"

definition ex_env_clash :: env where
  "ex_env_clash = ex_env\<lparr>now_ms := 1690000000000, currentMonth := ''2023-07''\<rparr>"

definition ex_world :: world where
  "ex_world =
     \<lparr>objects = [''videos/1690000000000-clip.mp4'' \<mapsto> ''DATA''],
      video_metadata = [''videos/1690000000000-clip.mp4'' \<mapsto> (''u1'', ''Ann'')],
      upload_history = [(4, ''2023-07''), (6, ''2023-11'')],
      sent = []\<rparr>"

definition ex_file :: upload_file where
  "ex_file = \<lparr>originalname = ''clip.mp4'', file_size = 5, buffer = ''BYTES'',
              mimetype = ''video/mp4''\<rparr>"

definition ex_request :: upload_request where
  "ex_request = \<lparr>req_file = Some ex_file, uploaderId = Some ''u2'',
                 uploaderName = Some ''Bob''\<rparr>"

text \<open>
  The invariant of the scan of \<open>extname\<close> before index \<open>i\<close> is looked at, and what it
  leaves behind: the characters between \<open>startDot\<close> and \<open>end\<close> are never a separator.
\<close>

definition ext_inv :: "string \<Rightarrow> nat \<Rightarrow> ext_state \<Rightarrow> bool" where
  "ext_inv path i s =
     ((matchedSlash s \<longleftrightarrow> end_i s = -1)
      \<and> (end_i s = -1 \<longrightarrow> startDot s = -1)
      \<and> (end_i s \<noteq> -1 \<longrightarrow> int i \<le> end_i s \<and> end_i s \<le> int (length path)
            \<and> (\<forall>j. i \<le> j \<and> int j < end_i s \<longrightarrow> path ! j \<noteq> CHR ''/''))
      \<and> (startDot s \<noteq> -1 \<longrightarrow> int i \<le> startDot s \<and> startDot s < end_i s))"

definition ext_post :: "string \<Rightarrow> ext_state \<Rightarrow> bool" where
  "ext_post path s =
     (startDot s = -1 \<or>
      (0 \<le> startDot s \<and> startDot s < end_i s \<and> end_i s \<le> int (length path)
       \<and> (\<forall>j. startDot s \<le> int j \<and> int j < end_i s \<longrightarrow> path ! j \<noteq> CHR ''/'')))"

section \<open>Properties of the key computation\<close>

lemma extname_loop_post:
  "ext_inv path n s \<Longrightarrow> n \<le> length path \<Longrightarrow> ext_post path (extname_loop path n s)"
proof (induction n arbitrary: s)
  case 0
  then show ?case by (auto simp: ext_inv_def ext_post_def)
next
  case (Suc i)
  show ?case
  proof (cases "path ! i = CHR ''/''")
    case True
    show ?thesis
    proof (cases "matchedSlash s")
      case True
      with Suc.prems have "ext_inv path i s" by (auto simp: ext_inv_def)
      with Suc.IH Suc.prems have "ext_post path (extname_loop path i s)" by simp
      with True \<open>path ! i = CHR ''/''\<close> show ?thesis by simp
    next
      case False
      with Suc.prems have "ext_post path (s\<lparr>startPart := int i + 1\<rparr>)"
        by (auto simp: ext_inv_def ext_post_def)
      with False \<open>path ! i = CHR ''/''\<close> show ?thesis by simp
    qed
  next
    case False
    define s1 where "s1 = (if end_i s = -1 then s\<lparr>matchedSlash := False, end_i := int i + 1\<rparr> else s)"
    define s2 where "s2 = (if path ! i = CHR ''.'' then
                     (if startDot s1 = -1 then s1\<lparr>startDot := int i\<rparr>
                      else if preDotState s1 \<noteq> 1 then s1\<lparr>preDotState := 1\<rparr>
                      else s1)
                   else if startDot s1 \<noteq> -1 then s1\<lparr>preDotState := -1\<rparr>
                   else s1)"
    have ns: "path ! j \<noteq> CHR ''/''" if "i \<le> j" "end_i s \<noteq> -1" "int j < end_i s" for j
    proof (cases "j = i")
      case True
      with False show ?thesis by simp
    next
      case False
      with that have "Suc i \<le> j" by simp
      with Suc.prems(1) that show ?thesis by (simp add: ext_inv_def)
    qed
    have i1: "ext_inv path i s1 \<and> int i < end_i s1"
    proof (cases "end_i s = -1")
      case True
      with Suc.prems False show ?thesis
        by (auto simp: s1_def ext_inv_def)
    next
      case False
      with Suc.prems ns show ?thesis
        by (auto simp: s1_def ext_inv_def)
    qed
    then have i2: "ext_inv path i s2"
      unfolding s2_def ext_inv_def by auto
    have "extname_loop path (Suc i) s = extname_loop path i s2"
      using False by (simp add: s1_def s2_def Let_def)
    with Suc.IH[OF i2] Suc.prems show ?thesis by simp
  qed
qed

lemma extname_no_slash: "CHR ''/'' \<notin> set (extname path)"
proof -
  have "ext_inv path (length path) ext_init" by (simp add: ext_inv_def ext_init_def)
  then have p: "ext_post path (extname_loop path (length path) ext_init)"
    by (rule extname_loop_post) simp
  define s where "s = extname_loop path (length path) ext_init"
  have "CHR ''/'' \<notin> set (slice path (startDot s) (end_i s))" if "startDot s \<noteq> -1"
  proof
    assume "CHR ''/'' \<in> set (slice path (startDot s) (end_i s))"
    then obtain k where k: "k < length (slice path (startDot s) (end_i s))"
        "slice path (startDot s) (end_i s) ! k = CHR ''/''"
      by (auto simp: in_set_conv_nth)
    from p that have b: "0 \<le> startDot s" "startDot s < end_i s" "end_i s \<le> int (length path)"
      and ns: "\<And>j. startDot s \<le> int j \<Longrightarrow> int j < end_i s \<Longrightarrow> path ! j \<noteq> CHR ''/''"
      by (auto simp: ext_post_def s_def)
    from k(1) b have kl: "k < nat (end_i s) - nat (startDot s)" by (simp add: slice_def)
    with k(2) b have "path ! (nat (startDot s) + k) = CHR ''/''" by (simp add: slice_def)
    moreover have "path ! (nat (startDot s) + k) \<noteq> CHR ''/''"
      using kl b by (intro ns) auto
    ultimately show False by simp
  qed
  then show ?thesis by (auto simp: extname_def Let_def s_def)
qed

lemma sanitize_no_slash: "CHR ''/'' \<notin> set (sanitize name)"
  by (auto simp: sanitize_def allowed_def)

text \<open>
  The character class of the expression, spelled out: the code ranges of \<open>allowed\<close> are
  the letters and digits, and the class has the dot and the hyphen besides. The statement
  is decided by running through the 256 values of \<open>char\<close>.
\<close>

lemma allowed_chars:
  "\<forall>c. allowed c \<longleftrightarrow>
         c \<in> set ''abcdefghijklmnopqrstuvwxyzABCDEFGHIJKLMNOPQRSTUVWXYZ0123456789.-''"
  by code_simp

lemma sanitize_nth:
  "i < length name \<Longrightarrow>
     sanitize name ! i = (if allowed (name ! i) then name ! i else CHR ''_'')"
  by (simp add: sanitize_def)

lemma underscore_not_allowed: "\<not> allowed (CHR ''_'')"
  by (simp add: allowed_def)

lemma sanitize_idem: "sanitize (sanitize name) = sanitize name"
  by (simp add: sanitize_def underscore_not_allowed)

text \<open>
  Claim C6. Sanitisation is a total function of the name. It keeps the length, replaces
  exactly the characters outside \<^verbatim>\<open>[A-Za-z0-9.-]\<close> by an underscore and keeps the
  others, so its result has only characters of \<^verbatim>\<open>[A-Za-z0-9._-]\<close>; and sanitising a
  sanitised name changes nothing.
\<close>

theorem sanitize_allow_list_idempotent:
  "length (sanitize name) = length name
   \<and> (\<forall>i < length name.
         sanitize name ! i =
           (if name ! i \<in> set ''abcdefghijklmnopqrstuvwxyzABCDEFGHIJKLMNOPQRSTUVWXYZ0123456789.-''
            then name ! i else CHR ''_''))
   \<and> set (sanitize name)
        \<subseteq> set ''abcdefghijklmnopqrstuvwxyzABCDEFGHIJKLMNOPQRSTUVWXYZ0123456789._-''
   \<and> sanitize (sanitize name) = sanitize name"
proof (intro conjI)
  show "length (sanitize name) = length name" by (simp add: sanitize_def)
  show "\<forall>i < length name.
         sanitize name ! i =
           (if name ! i \<in> set ''abcdefghijklmnopqrstuvwxyzABCDEFGHIJKLMNOPQRSTUVWXYZ0123456789.-''
            then name ! i else CHR ''_'')"
    using allowed_chars by (simp add: sanitize_nth)
  show "set (sanitize name)
        \<subseteq> set ''abcdefghijklmnopqrstuvwxyzABCDEFGHIJKLMNOPQRSTUVWXYZ0123456789._-''"
  proof
    fix c assume "c \<in> set (sanitize name)"
    then have "allowed c \<or> c = CHR ''_''" by (auto simp: sanitize_def)
    with allowed_chars
    show "c \<in> set ''abcdefghijklmnopqrstuvwxyzABCDEFGHIJKLMNOPQRSTUVWXYZ0123456789._-''"
      by auto
  qed
  show "sanitize (sanitize name) = sanitize name" by (rule sanitize_idem)
qed

theorem sanitize_allow_list_idempotent_witness:
  "(1::nat) < length ''a b/c''
   \<and> sanitize ''a b/c'' ! 1 = CHR ''_''
   \<and> sanitize ''a b/c'' = ''a_b_c''
   \<and> sanitize (sanitize ''a b/c'') = ''a_b_c''"
proof -
  have v: "sanitize ''a b/c'' = ''a_b_c''" by code_simp
  have l: "(1::nat) < length ''a b/c''" by simp
  from sanitize_allow_list_idempotent [of "''a b/c''"] l
  have "sanitize ''a b/c'' ! 1 =
          (if ''a b/c'' ! 1
                \<in> set ''abcdefghijklmnopqrstuvwxyzABCDEFGHIJKLMNOPQRSTUVWXYZ0123456789.-''
           then ''a b/c'' ! 1 else CHR ''_'')"
    and "sanitize (sanitize ''a b/c'') = sanitize ''a b/c''" by blast+
  with v show ?thesis by simp
qed

lemma rename_key_example:
  "rename_key ''videos/1690000000-clip.mp4'' ''My Clip!!'' = ''videos/My_Clip__.mp4''"
  by code_simp

text \<open>
  Claim C5. The key a rename computes is \<^verbatim>\<open>videos/\<close> followed by the sanitised display
  name, followed by the extension of the old key exactly when the sanitised name does not
  end with it already, so the new key always ends with the old extension. Renaming
  \<^verbatim>\<open>videos/1690000000-clip.mp4\<close> to \<^verbatim>\<open>My Clip!!\<close> gives \<^verbatim>\<open>videos/My_Clip__.mp4\<close>.
\<close>

theorem rename_key_computation:
  "rename_key oldKey newName =
     (if suffix (extname oldKey) (sanitize newName)
      then ''videos/'' @ sanitize newName
      else ''videos/'' @ sanitize newName @ extname oldKey)
   \<and> suffix (extname oldKey) (rename_key oldKey newName)
   \<and> extname ''videos/1690000000-clip.mp4'' = ''.mp4''
   \<and> sanitize ''My Clip!!'' = ''My_Clip__''
   \<and> rename_key ''videos/1690000000-clip.mp4'' ''My Clip!!'' = ''videos/My_Clip__.mp4''"
proof (intro conjI)
  show "rename_key oldKey newName =
     (if suffix (extname oldKey) (sanitize newName)
      then ''videos/'' @ sanitize newName
      else ''videos/'' @ sanitize newName @ extname oldKey)"
    by (simp add: rename_key_def Let_def)
  show "suffix (extname oldKey) (rename_key oldKey newName)"
    by (auto simp: rename_key_def Let_def suffix_append suffix_def)
  show "extname ''videos/1690000000-clip.mp4'' = ''.mp4''" by code_simp
  show "sanitize ''My Clip!!'' = ''My_Clip__''" by code_simp
  show "rename_key ''videos/1690000000-clip.mp4'' ''My Clip!!'' = ''videos/My_Clip__.mp4''"
    by (rule rename_key_example)
qed

text \<open>
  Claim C10. Whatever the old key and the display name, the key a rename computes starts
  with \<^verbatim>\<open>videos/\<close> and has no other \<^verbatim>\<open>/\<close>: sanitisation replaces every \<^verbatim>\<open>/\<close> of the
  name, and the extension taken from the old key never holds one.
\<close>

theorem rename_key_namespace:
  "prefix ''videos/'' (rename_key oldKey newName)
   \<and> CHR ''/'' \<notin> set (drop (length ''videos/'') (rename_key oldKey newName))"
  using extname_no_slash [of oldKey] sanitize_no_slash [of newName]
  by (simp add: rename_key_def Let_def)

section \<open>Properties of the handlers\<close>

subsection \<open>The two kinds of external call\<close>

lemma r2_send_fault:
  "s3_fault e c = Some m \<Longrightarrow> r2_send e w c = (Some m, w\<lparr>sent := sent w @ [S3 c]\<rparr>)"
  by (simp add: r2_send_def Let_def)

lemma r2_send_put:
  "s3_fault e (PutObject b k body ct) = None \<Longrightarrow>
     r2_send e w (PutObject b k body ct) =
       (None, w\<lparr>sent := sent w @ [S3 (PutObject b k body ct)], objects := (objects w)(k \<mapsto> body)\<rparr>)"
  by (simp add: r2_send_def Let_def)

lemma r2_send_delete:
  "s3_fault e (DeleteObject b k) = None \<Longrightarrow>
     r2_send e w (DeleteObject b k) =
       (None, w\<lparr>sent := sent w @ [S3 (DeleteObject b k)], objects := (objects w)(k := None)\<rparr>)"
  by (simp add: r2_send_def Let_def)

lemma r2_send_copy:
  "s3_fault e (CopyObject b src k) = None \<Longrightarrow>
     r2_send e w (CopyObject b src k) =
       (case (case copy_source e b src of None \<Rightarrow> None | Some k0 \<Rightarrow> objects w k0) of
          None \<Rightarrow> (Some ''The specified key does not exist.'',
                     w\<lparr>sent := sent w @ [S3 (CopyObject b src k)]\<rparr>)
        | Some body \<Rightarrow> (None, w\<lparr>sent := sent w @ [S3 (CopyObject b src k)],
                                 objects := (objects w)(k \<mapsto> body)\<rparr>))"
  by (simp add: r2_send_def Let_def split: option.splits)

lemma db_run_fault:
  "db_fault e st = Some m \<Longrightarrow> db_run e w st = (Some m, w\<lparr>sent := sent w @ [Sql st]\<rparr>)"
  by (simp add: db_run_def Let_def)

lemma db_run_insert_history:
  "db_fault e (Insert_upload_history n) = None \<Longrightarrow>
     db_run e w (Insert_upload_history n) =
       (None, w\<lparr>sent := sent w @ [Sql (Insert_upload_history n)],
                 upload_history := upload_history w @ [(n, currentMonth e)]\<rparr>)"
  by (simp add: db_run_def Let_def)

lemma db_run_delete:
  "db_fault e (Delete_video_metadata k) = None \<Longrightarrow>
     db_run e w (Delete_video_metadata k) =
       (None, w\<lparr>sent := sent w @ [Sql (Delete_video_metadata k)],
                 video_metadata := (video_metadata w)(k := None)\<rparr>)"
  by (simp add: db_run_def Let_def)

lemma db_run_insert_metadata:
  "db_fault e (Insert_video_metadata k u n) = None \<Longrightarrow>
     db_run e w (Insert_video_metadata k u n) =
       (case video_metadata w k of
          Some row \<Rightarrow> (Some ''UNIQUE constraint failed: video_metadata.video_key'',
                        w\<lparr>sent := sent w @ [Sql (Insert_video_metadata k u n)]\<rparr>)
        | None \<Rightarrow> (None, w\<lparr>sent := sent w @ [Sql (Insert_video_metadata k u n)],
                            video_metadata := (video_metadata w)(k \<mapsto> (u, n))\<rparr>))"
  by (simp add: db_run_def Let_def split: option.splits)

text \<open>What the two kinds of call never touch.\<close>

lemma r2_send_frame:
  "r2_send e w c = (res, w') \<Longrightarrow>
     video_metadata w' = video_metadata w \<and> upload_history w' = upload_history w
     \<and> sent w' = sent w @ [S3 c] \<and> (res \<noteq> None \<longrightarrow> objects w' = objects w)"
  by (auto simp: r2_send_def Let_def split: option.splits s3_command.splits)

lemma db_run_frame:
  "db_run e w st = (res, w') \<Longrightarrow>
     objects w' = objects w \<and> sent w' = sent w @ [Sql st]
     \<and> (res \<noteq> None \<longrightarrow> video_metadata w' = video_metadata w \<and> upload_history w' = upload_history w)"
  by (auto simp: db_run_def Let_def split: option.splits sql_statement.splits if_splits)

lemma month_usage_append:
  "month_usage m (h @ [(n, m)]) = month_usage m h + n"
  by (simp add: month_usage_def)

lemma rename_key_prefix: "prefix ''videos/'' (rename_key oldKey newName)"
  by (simp add: rename_key_def Let_def)

lemma limit_value: "limit = 10737418240"
  by (simp add: limit_def)

text \<open>
  A server whose storage is not configured answers 500 to each of the three requests
  before it looks at them. The configuration is fixed when the process starts; the
  statements about requests below are about a configured server.
\<close>

lemma unconfigured_server:
  assumes "not_configured cfg"
  shows "upload_video cfg e w req =
           (Error_response 500 ''R2 is not configured. Please check your environment variables.'', w)"
    and "delete_video cfg e w key =
           (Error_response 500 ''R2 is not configured. Please check your environment variables.'', w)"
    and "rename_video cfg e w oldKey newName =
           (Error_response 500 ''R2 is not configured. Please check your environment variables.'', w)"
  using assms by (simp_all add: upload_video_def delete_video_def rename_video_def)

subsection \<open>Concrete runs\<close>

text \<open>
  The values of the example configuration, environments, state and request, and the keys
  they lead to, for the instances that follow each statement.
\<close>

lemma digit_chars:
  "char_of (48::nat) = CHR ''0''" "char_of (49::nat) = CHR ''1''" "char_of (50::nat) = CHR ''2''"
  "char_of (51::nat) = CHR ''3''" "char_of (52::nat) = CHR ''4''" "char_of (53::nat) = CHR ''5''"
  "char_of (54::nat) = CHR ''6''" "char_of (55::nat) = CHR ''7''" "char_of (56::nat) = CHR ''8''"
  "char_of (57::nat) = CHR ''9''"
  by code_simp+

lemma dec_string_examples:
  "dec_string 1700000000000 = ''1700000000000''" "dec_string 1690000000000 = ''1690000000000''"
  by (simp_all add: dec_string.simps digit_chars)

lemma sanitize_clip: "sanitize ''clip.mp4'' = ''clip.mp4''"
  by code_simp

lemma ex_configured: "\<not> not_configured ex_config"
  by (simp add: not_configured_def ex_config_def bucketName_def)

lemma ex_upload_key:
  "upload_key ex_env ex_file = ''videos/1700000000000-clip.mp4''"
  "upload_key ex_env_s3_down ex_file = ''videos/1700000000000-clip.mp4''"
  "upload_key ex_env_db_locked ex_file = ''videos/1700000000000-clip.mp4''"
  "upload_key ex_env_clash ex_file = ''videos/1690000000000-clip.mp4''"
  by (simp_all add: upload_key_def ex_env_def ex_env_s3_down_def ex_env_db_locked_def
        ex_env_clash_def ex_file_def dec_string_examples sanitize_clip)

lemma ex_under_quota:
  "month_usage (currentMonth ex_env) (upload_history ex_world) + file_size ex_file \<le> limit"
  by (simp add: month_usage_def ex_env_def ex_world_def ex_file_def limit_def)

lemma ex_config_sel:
  "bucketName ex_config = ''media''" "publicUrl ex_config = ''https://cdn.example.com''"
  by (simp_all add: ex_config_def bucketName_def publicUrl_def)

lemma ex_env_sel:
  "now_ms ex_env = 1700000000000" "currentMonth ex_env = ''2023-11''"
  "s3_fault ex_env = (\<lambda>c. None)" "db_fault ex_env = (\<lambda>st. None)"
  "currentMonth ex_env_s3_down = ''2023-11''"
  "s3_fault ex_env_s3_down = (\<lambda>c. Some ''connect ETIMEDOUT'')"
  "db_fault ex_env_s3_down = (\<lambda>st. None)"
  "currentMonth ex_env_db_locked = ''2023-11''"
  "s3_fault ex_env_db_locked = (\<lambda>c. None)"
  "db_fault ex_env_db_locked = (\<lambda>st. Some ''database is locked'')"
  "currentMonth ex_env_delete_denied = ''2023-11''"
  "s3_fault ex_env_delete_denied =
     (\<lambda>c. case c of DeleteObject b k \<Rightarrow> Some ''Access Denied'' | _ \<Rightarrow> None)"
  "db_fault ex_env_delete_denied = (\<lambda>st. None)"
  "now_ms ex_env_clash = 1690000000000" "currentMonth ex_env_clash = ''2023-07''"
  "s3_fault ex_env_clash = (\<lambda>c. None)" "db_fault ex_env_clash = (\<lambda>st. None)"
  by (simp_all add: ex_env_def ex_env_s3_down_def ex_env_db_locked_def
        ex_env_delete_denied_def ex_env_clash_def)

lemma ex_world_sel:
  "objects ex_world = [''videos/1690000000000-clip.mp4'' \<mapsto> ''DATA'']"
  "video_metadata ex_world = [''videos/1690000000000-clip.mp4'' \<mapsto> (''u1'', ''Ann'')]"
  "upload_history ex_world = [(4, ''2023-07''), (6, ''2023-11'')]"
  "sent ex_world = []"
  by (simp_all add: ex_world_def)

lemma ex_file_sel:
  "originalname ex_file = ''clip.mp4''" "file_size ex_file = 5" "buffer ex_file = ''BYTES''"
  "mimetype ex_file = ''video/mp4''"
  by (simp_all add: ex_file_def)

lemma ex_request_sel:
  "req_file ex_request = Some ex_file" "uploaderId ex_request = Some ''u2''"
  "uploaderName ex_request = Some ''Bob''"
  by (simp_all add: ex_request_def)

lemmas ex_sel = ex_configured ex_config_sel ex_env_sel ex_world_sel ex_file_sel ex_request_sel
  ex_upload_key

lemmas call_defs = r2_send_def db_run_def month_usage_def limit_def upload_put_def
  delete_command_def rename_copy_def rename_delete_def rename_update_def rename_steps_def
  Let_def

lemmas ex_request_file = ex_request_sel(1)

lemma ex_under_quota_all:
  "month_usage (currentMonth ex_env_s3_down) (upload_history ex_world) + file_size ex_file \<le> limit"
  "month_usage (currentMonth ex_env_db_locked) (upload_history ex_world) + file_size ex_file \<le> limit"
  "month_usage (currentMonth ex_env_clash) (upload_history ex_world) + file_size ex_file \<le> limit"
  by (simp_all add: ex_sel call_defs)

lemma ex_copy_source:
  "copy_source ex_env = s3_copy_source" "copy_source ex_env_s3_down = s3_copy_source"
  "copy_source ex_env_db_locked = s3_copy_source"
  "copy_source ex_env_delete_denied = s3_copy_source"
  "copy_source ex_env_clash = s3_copy_source"
  by (simp_all add: ex_env_def ex_env_s3_down_def ex_env_db_locked_def
        ex_env_delete_denied_def ex_env_clash_def)

lemma ex_source_read:
  "s3_copy_source ''media'' ''media/videos/1690000000000-clip.mp4''
     = Some ''videos/1690000000000-clip.mp4''"
  by code_simp

text \<open>
  A key with a percent escape is read as another key: the copy of a rename of
  \<^verbatim>\<open>videos/a%41.mp4\<close> reads the object \<^verbatim>\<open>videos/aA.mp4\<close>.
\<close>

lemma ex_source_read_escaped:
  "s3_copy_source ''media'' (''media'' @ ''/'' @ ''videos/a%41.mp4'') = Some ''videos/aA.mp4''"
  by code_simp

lemma ex_copied_object:
  "copied_object ex_config ex_env ex_world ''videos/1690000000000-clip.mp4'' = Some ''DATA''"
  "copied_object ex_config ex_env_delete_denied ex_world ''videos/1690000000000-clip.mp4''
     = Some ''DATA''"
  "copied_object ex_config ex_env_db_locked ex_world ''videos/1690000000000-clip.mp4''
     = Some ''DATA''"
  by (simp_all add: copied_object_def ex_sel ex_copy_source ex_source_read)

lemma ex_rename_key:
  "rename_key ''videos/1690000000000-clip.mp4'' ''My Clip!!'' = ''videos/My_Clip__.mp4''"
  by code_simp

subsection \<open>Upload: quota\<close>

text \<open>
  Claim C2. On a configured server, an upload whose payload size added to the sum of the
  current month's ledger entries exceeds the limit of 10 GiB is answered 400 with the
  quota message, and the world is unchanged: the bucket, the metadata table and the
  ledger are as before, and no command or statement was issued at all.
\<close>

theorem upload_quota_rejection:
  assumes "\<not> not_configured cfg"
    and "req_file req = Some f"
    and "limit < month_usage (currentMonth e) (upload_history w) + file_size f"
  shows "upload_video cfg e w req =
           (Error_response 400
              ''Monthly upload quota exceeded (10GB limit). Please try again next month.'', w)
         \<and> limit = 10 * 1024 * 1024 * 1024"
  using assms by (simp add: upload_video_def limit_def)

theorem upload_quota_rejection_witness:
  "\<not> not_configured ex_config
   \<and> month_usage (currentMonth ex_env) (replicate 102 (104857600, ''2023-11'')) = 10695475200
   \<and> limit < 10695475200 + 52428800
   \<and> upload_video ex_config ex_env
         (ex_world\<lparr>upload_history := replicate 102 (104857600, ''2023-11'')\<rparr>)
         (ex_request\<lparr>req_file := Some (ex_file\<lparr>file_size := 52428800\<rparr>)\<rparr>)
       = (Error_response 400
            ''Monthly upload quota exceeded (10GB limit). Please try again next month.'',
          ex_world\<lparr>upload_history := replicate 102 (104857600, ''2023-11'')\<rparr>)"
proof -
  have f: "req_file (ex_request\<lparr>req_file := Some (ex_file\<lparr>file_size := 52428800\<rparr>)\<rparr>)
             = Some (ex_file\<lparr>file_size := 52428800\<rparr>)" by simp
  have u: "month_usage (currentMonth ex_env) (replicate 102 (104857600, ''2023-11''))
             = 10695475200"
    by (simp add: month_usage_def ex_env_sel sum_list_replicate)
  have l: "limit < 10695475200 + 52428800" by (simp add: limit_def)
  from u l
  have q: "limit < month_usage (currentMonth ex_env)
                     (upload_history
                        (ex_world\<lparr>upload_history := replicate 102 (104857600, ''2023-11'')\<rparr>))
                   + file_size (ex_file\<lparr>file_size := 52428800\<rparr>)"
    by simp
  from upload_quota_rejection [OF ex_configured f q] u l ex_configured
  show ?thesis by simp
qed

subsection \<open>Upload: failures\<close>

lemma upload_video_put_fails:
  assumes "\<not> not_configured cfg" and "req_file req = Some f"
    and "month_usage (currentMonth e) (upload_history w) + file_size f \<le> limit"
    and "s3_fault e (upload_put cfg e f) = Some msg"
  shows "upload_video cfg e w req =
           (Error_response 500 msg, w\<lparr>sent := sent w @ [S3 (upload_put cfg e f)]\<rparr>)"
  using assms r2_send_fault [of e "upload_put cfg e f" msg w]
  by (simp add: upload_video_def upload_put_def Let_def)

text \<open>The rest of an upload once the object is written: the two inserts.\<close>

lemma upload_video_put_ok:
  assumes "\<not> not_configured cfg" and "req_file req = Some f"
    and "month_usage (currentMonth e) (upload_history w) + file_size f \<le> limit"
    and "s3_fault e (upload_put cfg e f) = None"
    and "upload_video cfg e w req = (r, w')"
  shows "objects w' = (objects w)(upload_key e f \<mapsto> buffer f)
         \<and> (\<exists>sts. sent w' = sent w @ S3 (upload_put cfg e f) # map Sql sts)
         \<and> (is_success r \<or> (\<exists>msg. r = Error_response 500 msg))"
proof -
  define w1 where "w1 = w\<lparr>sent := sent w @ [S3 (upload_put cfg e f)],
                         objects := (objects w)(upload_key e f \<mapsto> buffer f)\<rparr>"
  have put: "r2_send e w (PutObject (bucketName cfg) (upload_key e f) (buffer f) (mimetype f))
               = (None, w1)"
    using assms(4) r2_send_put [of e "bucketName cfg" "upload_key e f" "buffer f" "mimetype f" w]
    by (simp add: upload_put_def w1_def)
  obtain m2 w2 where meta:
    "(if truthy (uploaderId req) \<and> truthy (uploaderName req)
      then db_run e w1 (Insert_video_metadata (upload_key e f)
             (the (uploaderId req)) (the (uploaderName req)))
      else (None, w1)) = (m2, w2)"
    by fastforce
  have f2: "objects w2 = objects w1 \<and> (\<exists>sts. sent w2 = sent w1 @ map Sql sts)"
  proof (cases "truthy (uploaderId req) \<and> truthy (uploaderName req)")
    case True
    with meta have "db_run e w1 (Insert_video_metadata (upload_key e f)
             (the (uploaderId req)) (the (uploaderName req))) = (m2, w2)" by simp
    from db_run_frame [OF this] have "objects w2 = objects w1"
      and "sent w2 = sent w1 @ map Sql [Insert_video_metadata (upload_key e f)
             (the (uploaderId req)) (the (uploaderName req))]" by simp_all
    then show ?thesis by blast
  next
    case False
    with meta have "w2 = w1" by auto
    then have "sent w2 = sent w1 @ map Sql []" by simp
    with \<open>w2 = w1\<close> show ?thesis by blast
  qed
  then obtain sts2 where s2: "sent w2 = sent w1 @ map Sql sts2" by blast
  show ?thesis
  proof (cases m2)
    case (Some msg)
    with assms(1-3,5) put meta have "r = Error_response 500 msg" "w' = w2"
      by (simp_all add: upload_video_def Let_def)
    with f2 s2 show ?thesis by (auto simp: w1_def)
  next
    case None
    obtain m3 w3 where led: "db_run e w2 (Insert_upload_history (file_size f)) = (m3, w3)"
      by fastforce
    from db_run_frame [OF led] have f3: "objects w3 = objects w2"
      "sent w3 = sent w2 @ [Sql (Insert_upload_history (file_size f))]" by simp_all
    with s2 have s3: "sent w3 = sent w1 @ map Sql (sts2 @ [Insert_upload_history (file_size f)])"
      by simp
    from None assms(1-3,5) put meta led
    have "w' = w3" and "is_success r \<or> (\<exists>msg. r = Error_response 500 msg)"
      by (auto simp: upload_video_def Let_def split: option.splits)
    then have w3: "w' = w3" and r3: "is_success r \<or> (\<exists>msg. r = Error_response 500 msg)"
      by blast+
    from w3 f2 f3 have "objects w' = (objects w)(upload_key e f \<mapsto> buffer f)"
      by (simp add: w1_def)
    moreover from w3 s3
    have "sent w' = sent w @ S3 (upload_put cfg e f)
                      # map Sql (sts2 @ [Insert_upload_history (file_size f)])"
      by (simp add: w1_def)
    then have "\<exists>sts. sent w' = sent w @ S3 (upload_put cfg e f) # map Sql sts" by blast
    ultimately show ?thesis using r3 by blast
  qed
qed

text \<open>
  Claim C9. Take an upload that reaches the object store (configured server, file present,
  quota not exceeded). If the put fails, the request fails with 500 and the error's
  message, and the bucket, the metadata table and the ledger are as before: the put is
  the only call made. If the put succeeds, the object is in the bucket afterwards whatever
  the two inserts do: after the put only SQL statements are issued, no compensating
  delete, and the request either succeeds or fails with 500.
\<close>

theorem upload_failure_atomicity:
  assumes "\<not> not_configured cfg" and "req_file req = Some f"
    and "month_usage (currentMonth e) (upload_history w) + file_size f \<le> limit"
    and "upload_video cfg e w req = (r, w')"
  shows "(s3_fault e (upload_put cfg e f) = Some msg \<longrightarrow>
            r = Error_response 500 msg
            \<and> objects w' = objects w
            \<and> video_metadata w' = video_metadata w
            \<and> upload_history w' = upload_history w
            \<and> sent w' = sent w @ [S3 (upload_put cfg e f)])
         \<and> (s3_fault e (upload_put cfg e f) = None \<longrightarrow>
            objects w' = (objects w)(upload_key e f \<mapsto> buffer f)
            \<and> (\<exists>sts. sent w' = sent w @ S3 (upload_put cfg e f) # map Sql sts)
            \<and> (is_success r \<or> (\<exists>msg. r = Error_response 500 msg)))"
proof (intro conjI impI)
  assume "s3_fault e (upload_put cfg e f) = Some msg"
  from upload_video_put_fails [OF assms(1-3) this] assms(4)
  have "r = Error_response 500 msg" "w' = w\<lparr>sent := sent w @ [S3 (upload_put cfg e f)]\<rparr>"
    by simp_all
  then show "r = Error_response 500 msg" "objects w' = objects w"
    "video_metadata w' = video_metadata w" "upload_history w' = upload_history w"
    "sent w' = sent w @ [S3 (upload_put cfg e f)]" by simp_all
next
  assume "s3_fault e (upload_put cfg e f) = None"
  from upload_video_put_ok [OF assms(1-3) this assms(4)]
  show "objects w' = (objects w)(upload_key e f \<mapsto> buffer f)"
    "\<exists>sts. sent w' = sent w @ S3 (upload_put cfg e f) # map Sql sts"
    "is_success r \<or> (\<exists>msg. r = Error_response 500 msg)" by blast+
qed

theorem upload_failure_atomicity_witness:
  "s3_fault ex_env_s3_down (upload_put ex_config ex_env_s3_down ex_file) = Some ''connect ETIMEDOUT''
   \<and> fst (upload_video ex_config ex_env_s3_down ex_world ex_request)
        = Error_response 500 ''connect ETIMEDOUT''
   \<and> objects (snd (upload_video ex_config ex_env_s3_down ex_world ex_request)) = objects ex_world
   \<and> video_metadata (snd (upload_video ex_config ex_env_s3_down ex_world ex_request))
        = video_metadata ex_world
   \<and> upload_history (snd (upload_video ex_config ex_env_s3_down ex_world ex_request))
        = upload_history ex_world
   \<and> s3_fault ex_env_db_locked (upload_put ex_config ex_env_db_locked ex_file) = None
   \<and> fst (upload_video ex_config ex_env_db_locked ex_world ex_request)
        = Error_response 500 ''database is locked''
   \<and> objects (snd (upload_video ex_config ex_env_db_locked ex_world ex_request))
        = (objects ex_world)(''videos/1700000000000-clip.mp4'' \<mapsto> ''BYTES'')"
proof -
  have down: "s3_fault ex_env_s3_down (upload_put ex_config ex_env_s3_down ex_file)
                = Some ''connect ETIMEDOUT''"
    by (simp add: ex_sel)
  have up: "s3_fault ex_env_db_locked (upload_put ex_config ex_env_db_locked ex_file) = None"
    by (simp add: ex_sel)
  have locked: "fst (upload_video ex_config ex_env_db_locked ex_world ex_request)
                  = Error_response 500 ''database is locked''"
    by (simp add: upload_video_def ex_sel call_defs)
  note a = upload_failure_atomicity [OF ex_configured ex_request_file ex_under_quota_all(1)
             prod.collapse [symmetric], where msg = "''connect ETIMEDOUT''"]
  note b = upload_failure_atomicity [OF ex_configured ex_request_file ex_under_quota_all(2)
             prod.collapse [symmetric]]
  from a down b up locked show ?thesis
    by (simp add: ex_sel)
qed

subsection \<open>Upload: accounting\<close>

lemma db_run_insert_metadata_ok:
  "db_fault e (Insert_video_metadata k u n) = None \<Longrightarrow> video_metadata w k = None \<Longrightarrow>
     db_run e w (Insert_video_metadata k u n) =
       (None, w\<lparr>sent := sent w @ [Sql (Insert_video_metadata k u n)],
                 video_metadata := (video_metadata w)(k \<mapsto> (u, n))\<rparr>)"
  by (simp add: db_run_insert_metadata)

text \<open>
  Claim C3, as the handler has it. Take an upload on a configured server whose payload
  size added to the current month's usage is at most the limit, and whose put succeeds.
  If moreover the two inserts do not fail (the metadata insert, made only when an
  uploader id and name are given, needs the key not to be in the table yet, and the
  database must not refuse either statement), then the upload succeeds with its key and
  URL, exactly one entry of the payload size is appended to the ledger, and the usage of
  the current month afterwards is the usage before plus the payload size.
\<close>

theorem upload_accounting:
  assumes "\<not> not_configured cfg" and "req_file req = Some f"
    and "month_usage (currentMonth e) (upload_history w) + file_size f \<le> limit"
    and "s3_fault e (upload_put cfg e f) = None"
    and "truthy (uploaderId req) \<and> truthy (uploaderName req) \<longrightarrow>
           db_fault e (Insert_video_metadata (upload_key e f)
              (the (uploaderId req)) (the (uploaderName req))) = None
           \<and> video_metadata w (upload_key e f) = None"
    and "db_fault e (Insert_upload_history (file_size f)) = None"
    and "upload_video cfg e w req = (r, w')"
  shows "r = Json_uploaded (upload_key e f)
               (if publicUrl cfg \<noteq> [] then publicUrl cfg @ ''/'' @ upload_key e f else [])
         \<and> upload_history w' = upload_history w @ [(file_size f, currentMonth e)]
         \<and> month_usage (currentMonth e) (upload_history w')
             = month_usage (currentMonth e) (upload_history w) + file_size f
         \<and> objects w' = (objects w)(upload_key e f \<mapsto> buffer f)"
proof -
  define w1 where "w1 = w\<lparr>sent := sent w @ [S3 (upload_put cfg e f)],
                         objects := (objects w)(upload_key e f \<mapsto> buffer f)\<rparr>"
  have put: "r2_send e w (PutObject (bucketName cfg) (upload_key e f) (buffer f) (mimetype f))
               = (None, w1)"
    using assms(4) r2_send_put [of e "bucketName cfg" "upload_key e f" "buffer f" "mimetype f" w]
    by (simp add: upload_put_def w1_def)
  obtain w2 where meta:
    "(if truthy (uploaderId req) \<and> truthy (uploaderName req)
      then db_run e w1 (Insert_video_metadata (upload_key e f)
             (the (uploaderId req)) (the (uploaderName req)))
      else (None, w1)) = (None, w2)"
    and f2: "upload_history w2 = upload_history w" "objects w2 = objects w1"
  proof (cases "truthy (uploaderId req) \<and> truthy (uploaderName req)")
    case True
    with assms(5) have "db_fault e (Insert_video_metadata (upload_key e f)
              (the (uploaderId req)) (the (uploaderName req))) = None"
      and "video_metadata w1 (upload_key e f) = None" by (simp_all add: w1_def)
    from db_run_insert_metadata_ok [OF this] True that show ?thesis
      by (simp add: w1_def)
  next
    case False
    with that show ?thesis by (simp add: w1_def)
  qed
  define w3 where "w3 = w2\<lparr>sent := sent w2 @ [Sql (Insert_upload_history (file_size f))],
                 upload_history := upload_history w2 @ [(file_size f, currentMonth e)]\<rparr>"
  have led: "db_run e w2 (Insert_upload_history (file_size f)) = (None, w3)"
    using db_run_insert_history [OF assms(6)] by (simp add: w3_def)
  from assms(1-3,7) put meta led
  have r: "r = Json_uploaded (upload_key e f)
               (if publicUrl cfg \<noteq> [] then publicUrl cfg @ ''/'' @ upload_key e f else [])"
    and w': "w' = w3"
    by (simp_all add: upload_video_def Let_def)
  from w' f2 have h: "upload_history w' = upload_history w @ [(file_size f, currentMonth e)]"
    and o: "objects w' = (objects w)(upload_key e f \<mapsto> buffer f)"
    by (simp_all add: w3_def w1_def)
  from h have "month_usage (currentMonth e) (upload_history w')
             = month_usage (currentMonth e) (upload_history w) + file_size f"
    by (simp add: month_usage_append)
  with r h o show ?thesis by simp
qed

theorem upload_accounting_witness:
  "\<not> not_configured ex_config
   \<and> req_file ex_request = Some ex_file
   \<and> month_usage (currentMonth ex_env) (upload_history ex_world) + file_size ex_file \<le> limit
   \<and> s3_fault ex_env (upload_put ex_config ex_env ex_file) = None
   \<and> video_metadata ex_world (upload_key ex_env ex_file) = None
   \<and> fst (upload_video ex_config ex_env ex_world ex_request)
        = Json_uploaded ''videos/1700000000000-clip.mp4''
            ''https://cdn.example.com/videos/1700000000000-clip.mp4''
   \<and> upload_history (snd (upload_video ex_config ex_env ex_world ex_request))
        = [(4, ''2023-07''), (6, ''2023-11''), (5, ''2023-11'')]
   \<and> month_usage ''2023-11'' (upload_history ex_world) = 6
   \<and> month_usage ''2023-11'' (upload_history (snd (upload_video ex_config ex_env ex_world ex_request)))
        = 11"
proof -
  have put: "s3_fault ex_env (upload_put ex_config ex_env ex_file) = None"
    by (simp add: ex_sel)
  have free: "video_metadata ex_world (upload_key ex_env ex_file) = None"
    by (simp add: ex_sel)
  have meta: "truthy (uploaderId ex_request) \<and> truthy (uploaderName ex_request) \<longrightarrow>
           db_fault ex_env (Insert_video_metadata (upload_key ex_env ex_file)
              (the (uploaderId ex_request)) (the (uploaderName ex_request))) = None
           \<and> video_metadata ex_world (upload_key ex_env ex_file) = None"
    by (simp add: ex_sel)
  have led: "db_fault ex_env (Insert_upload_history (file_size ex_file)) = None"
    by (simp add: ex_sel)
  have u: "month_usage ''2023-11'' (upload_history ex_world) = 6"
    by (simp add: month_usage_def ex_sel)
  note t = upload_accounting [OF ex_configured ex_request_file ex_under_quota put meta led
             prod.collapse [symmetric]]
  from t put free u ex_configured ex_request_file ex_under_quota show ?thesis
    by (simp add: ex_sel month_usage_def)
qed

text \<open>
  Claim C3 as it was stated, with the quota and the put as its only conditions, fails:
  here the quota is respected and the put succeeds, the metadata insert then hits the
  primary key, the request is answered 500 and the ledger has no new entry, although the
  object is stored.
\<close>

theorem upload_accounting_counterexample:
  "\<not> not_configured ex_config
   \<and> req_file ex_request = Some ex_file
   \<and> month_usage (currentMonth ex_env_clash) (upload_history ex_world) + file_size ex_file \<le> limit
   \<and> fst (r2_send ex_env_clash ex_world (upload_put ex_config ex_env_clash ex_file)) = None
   \<and> fst (upload_video ex_config ex_env_clash ex_world ex_request)
        = Error_response 500 ''UNIQUE constraint failed: video_metadata.video_key''
   \<and> upload_history (snd (upload_video ex_config ex_env_clash ex_world ex_request))
        = upload_history ex_world
   \<and> objects (snd (upload_video ex_config ex_env_clash ex_world ex_request))
        ''videos/1690000000000-clip.mp4'' = Some ''BYTES''"
  by (simp add: upload_video_def ex_sel call_defs)

subsection \<open>Rename\<close>

text \<open>
  Claim C7. On a configured server, a rename with a non-empty display name whose computed
  key is the old key answers success with that key and leaves the world as it is: no
  copy, no delete, no update was issued.
\<close>

theorem rename_noop:
  assumes "\<not> not_configured cfg"
    and "name \<noteq> []"
    and "rename_key oldKey name = oldKey"
  shows "rename_video cfg e w oldKey (Str name) = (Json_renamed oldKey, w)"
proof -
  from assms(3) rename_key_prefix [of oldKey name] have "prefix ''videos/'' oldKey" by simp
  moreover from this have "oldKey \<noteq> []" by auto
  ultimately show ?thesis using assms by (simp add: rename_video_def)
qed

theorem rename_noop_witness:
  "\<not> not_configured ex_config
   \<and> rename_key ''videos/1690000000000-clip.mp4'' ''1690000000000-clip'' = ''videos/1690000000000-clip.mp4''
   \<and> rename_video ex_config ex_env ex_world ''videos/1690000000000-clip.mp4''
        (Str ''1690000000000-clip'') = (Json_renamed ''videos/1690000000000-clip.mp4'', ex_world)"
proof -
  have k: "rename_key ''videos/1690000000000-clip.mp4'' ''1690000000000-clip''
             = ''videos/1690000000000-clip.mp4''" by code_simp
  have n: "''1690000000000-clip'' \<noteq> []" by simp
  from rename_noop [OF ex_configured n k] k ex_configured show ?thesis by simp
qed

text \<open>
  Claim C8. On a configured server, a rename whose old key is not under \<^verbatim>\<open>videos/\<close>, or
  whose display name is empty (or absent), is answered 400 and leaves the world as it is:
  nothing was sent to the bucket or to the database.
\<close>

theorem rename_validation:
  assumes "\<not> not_configured cfg"
    and "\<not> prefix ''videos/'' oldKey \<or> falsy newName"
  shows "rename_video cfg e w oldKey newName = (Error_response 400 ''Invalid request'', w)"
  using assms by (auto simp: rename_video_def)

theorem rename_validation_witness:
  "\<not> not_configured ex_config
   \<and> \<not> prefix ''videos/'' ''private/clip.mp4''
   \<and> rename_video ex_config ex_env ex_world ''private/clip.mp4'' (Str ''holiday'')
       = (Error_response 400 ''Invalid request'', ex_world)
   \<and> falsy (Str [])
   \<and> rename_video ex_config ex_env ex_world ''videos/1690000000000-clip.mp4'' (Str [])
       = (Error_response 400 ''Invalid request'', ex_world)"
proof -
  have a: "\<not> prefix ''videos/'' ''private/clip.mp4'' \<or> falsy (Str ''holiday'')" by simp
  have b: "\<not> prefix ''videos/'' ''videos/1690000000000-clip.mp4'' \<or> falsy (Str [])" by simp
  from rename_validation [OF ex_configured a] rename_validation [OF ex_configured b]
    ex_configured
  show ?thesis by simp
qed

lemma rename_reaches_copy:
  assumes "\<not> not_configured cfg" and "prefix ''videos/'' oldKey" and "name \<noteq> []"
    and "rename_key oldKey name \<noteq> oldKey"
  shows "rename_video cfg e w oldKey (Str name) =
     (case r2_send e w (rename_copy cfg oldKey (rename_key oldKey name)) of
        (Some msg, w1) \<Rightarrow> (Error_response 500 msg, w1)
      | (None, w1) \<Rightarrow>
          (case r2_send e w1 (rename_delete cfg oldKey) of
             (Some msg, w2) \<Rightarrow> (Error_response 500 msg, w2)
           | (None, w2) \<Rightarrow>
               (case db_run e w2 (rename_update oldKey (rename_key oldKey name)) of
                  (Some msg, w3) \<Rightarrow> (Error_response 500 msg, w3)
                | (None, w3) \<Rightarrow> (Json_renamed (rename_key oldKey name), w3))))"
proof -
  from assms(2) have "oldKey \<noteq> []" by auto
  with assms show ?thesis
    unfolding rename_video_def rename_copy_def rename_delete_def rename_update_def Let_def
    by simp
qed

lemma r2_send_copy_ok:
  assumes "r2_send e w (rename_copy cfg oldKey newKey) = (None, w1)"
  shows "copied_object cfg e w oldKey \<noteq> None
         \<and> w1 = w\<lparr>sent := sent w @ [S3 (rename_copy cfg oldKey newKey)],
                  objects := (objects w)(newKey := copied_object cfg e w oldKey)\<rparr>"
proof (cases "s3_fault e (rename_copy cfg oldKey newKey)")
  case None
  then have "s3_fault e (CopyObject (bucketName cfg) (bucketName cfg @ ''/'' @ oldKey) newKey)
               = None" by (simp add: rename_copy_def)
  from r2_send_copy [OF this, of w] assms show ?thesis
    by (auto simp: rename_copy_def copied_object_def split: option.splits)
next
  case (Some m)
  from r2_send_fault [OF this, of w] assms show ?thesis by simp
qed

text \<open>Whether the update throws depends on the metadata table alone.\<close>

lemma db_run_update:
  "db_run e w (rename_update oldKey newKey) = (res, w') \<Longrightarrow>
     objects w' = objects w \<and> upload_history w' = upload_history w
     \<and> sent w' = sent w @ [Sql (rename_update oldKey newKey)]
     \<and> (res \<noteq> None \<longrightarrow> video_metadata w' = video_metadata w)
     \<and> (res = None \<longrightarrow>
            video_metadata w' = moved_metadata (video_metadata w) oldKey newKey)"
  by (auto simp: db_run_def rename_update_def moved_metadata_def Let_def
           split: option.splits if_splits)

lemma db_run_update_result:
  "video_metadata w2 = video_metadata w \<Longrightarrow>
     fst (db_run e w2 (rename_update oldKey newKey)) = fst (db_run e w (rename_update oldKey newKey))"
  by (simp add: db_run_def rename_update_def Let_def split: option.splits)

text \<open>
  Claim C1. Take a rename that passes validation and computes a key other than the old
  one. The calls it issues are a non-empty initial part of: copy to the new key, delete
  of the old key, update of the metadata key, in this order, and the ledger is never
  touched. What it answers and leaves behind is fixed by where it stops:
  \<^item> the copy fails: 500 with its message; bucket and metadata are as before, and the
    copy is the only call made;
  \<^item> the copy succeeds and the delete fails: 500 with its message, after these two calls;
    the metadata table is as before (its row still has the old key), and the bucket has
    gained the copied object under the new key and lost nothing: the copy is not undone;
  \<^item> copy and delete succeed and the update throws: 500 with its message, after all
    three calls; the object has moved and the metadata table is as before;
  \<^item> all three succeed: success with the new key; the object has moved, and the row of
    the old key, if there was one, is now the row of the new key.

  The object copied is the one the store reads the \<^verbatim>\<open>CopySource\<close> as.
\<close>

theorem rename_order_and_failures:
  assumes "\<not> not_configured cfg" and "prefix ''videos/'' oldKey" and "name \<noteq> []"
    and "rename_key oldKey name = newKey" and "newKey \<noteq> oldKey"
    and "rename_video cfg e w oldKey (Str name) = (r, w')"
  shows "(\<exists>n \<in> {1, 2, 3}. sent w' = sent w @ take n (rename_steps cfg oldKey newKey))
         \<and> (is_success r \<longrightarrow> sent w' = sent w @ rename_steps cfg oldKey newKey)
         \<and> upload_history w' = upload_history w
         \<and> (fst (r2_send e w (rename_copy cfg oldKey newKey)) = Some msg \<longrightarrow>
              r = Error_response 500 msg
              \<and> objects w' = objects w
              \<and> video_metadata w' = video_metadata w
              \<and> sent w' = sent w @ [S3 (rename_copy cfg oldKey newKey)])
         \<and> (fst (r2_send e w (rename_copy cfg oldKey newKey)) = None
              \<and> s3_fault e (rename_delete cfg oldKey) = Some msg \<longrightarrow>
              r = Error_response 500 msg
              \<and> video_metadata w' = video_metadata w
              \<and> copied_object cfg e w oldKey \<noteq> None
              \<and> objects w' = (objects w)(newKey := copied_object cfg e w oldKey)
              \<and> sent w' = sent w @ [S3 (rename_copy cfg oldKey newKey),
                                     S3 (rename_delete cfg oldKey)])
         \<and> (fst (r2_send e w (rename_copy cfg oldKey newKey)) = None
              \<and> s3_fault e (rename_delete cfg oldKey) = None
              \<and> fst (db_run e w (rename_update oldKey newKey)) = Some msg \<longrightarrow>
              r = Error_response 500 msg
              \<and> video_metadata w' = video_metadata w
              \<and> objects w' = ((objects w)(newKey := copied_object cfg e w oldKey))(oldKey := None)
              \<and> sent w' = sent w @ rename_steps cfg oldKey newKey)
         \<and> (fst (r2_send e w (rename_copy cfg oldKey newKey)) = None
              \<and> s3_fault e (rename_delete cfg oldKey) = None
              \<and> fst (db_run e w (rename_update oldKey newKey)) = None \<longrightarrow>
              r = Json_renamed newKey
              \<and> video_metadata w' = moved_metadata (video_metadata w) oldKey newKey
              \<and> objects w' = ((objects w)(newKey := copied_object cfg e w oldKey))(oldKey := None)
              \<and> sent w' = sent w @ rename_steps cfg oldKey newKey)"
proof -
  let ?copy = "rename_copy cfg oldKey newKey"
  let ?del = "rename_delete cfg oldKey"
  let ?upd = "rename_update oldKey newKey"
  let ?src = "copied_object cfg e w oldKey"
  from assms(4,5) have "rename_key oldKey name \<noteq> oldKey" by simp
  note run = rename_reaches_copy [OF assms(1-3) this, where e = e and w = w, unfolded assms(4)]
  obtain m1 w1 where c: "r2_send e w ?copy = (m1, w1)" by fastforce
  from r2_send_frame [OF c] have f1: "video_metadata w1 = video_metadata w"
    "upload_history w1 = upload_history w" "sent w1 = sent w @ [S3 ?copy]"
    "m1 \<noteq> None \<longrightarrow> objects w1 = objects w" by simp_all
  show ?thesis
  proof (cases m1)
    case (Some m)
    with run c assms(6) have "r = Error_response 500 m" "w' = w1" by simp_all
    with f1 Some c show ?thesis by (simp add: rename_steps_def)
  next
    case None
    with c have "r2_send e w ?copy = (None, w1)" by simp
    from r2_send_copy_ok [OF this] have src: "?src \<noteq> None"
      and o1: "objects w1 = (objects w)(newKey := ?src)" by simp_all
    obtain m2 w2 where d: "r2_send e w1 ?del = (m2, w2)" by fastforce
    from r2_send_frame [OF d] f1 have f2: "video_metadata w2 = video_metadata w"
      "upload_history w2 = upload_history w" "sent w2 = sent w @ [S3 ?copy, S3 ?del]"
      "m2 \<noteq> None \<longrightarrow> objects w2 = objects w1" by simp_all
    show ?thesis
    proof (cases m2)
      case (Some m)
      with run c d None assms(6) have rw: "r = Error_response 500 m" "w' = w2" by simp_all
      have "s3_fault e ?del = Some msg \<longrightarrow> m = msg"
      proof
        assume "s3_fault e ?del = Some msg"
        from r2_send_fault [OF this, of w1] d Some show "m = msg" by simp
      qed
      moreover have "s3_fault e ?del \<noteq> None"
      proof
        assume "s3_fault e ?del = None"
        then have "s3_fault e (DeleteObject (bucketName cfg) oldKey) = None"
          by (simp add: rename_delete_def)
        from r2_send_delete [OF this, of w1] d Some show False
          by (simp add: rename_delete_def)
      qed
      ultimately show ?thesis using rw f2 Some c None src o1
        by (simp add: rename_steps_def)
    next
      case n2: None
      have nf: "s3_fault e ?del = None"
      proof (cases "s3_fault e ?del")
        case (Some m)
        from r2_send_fault [OF this, of w1] d n2 show ?thesis by simp
      qed simp
      then have "s3_fault e (DeleteObject (bucketName cfg) oldKey) = None"
        by (simp add: rename_delete_def)
      from r2_send_delete [OF this, of w1] d o1
      have o2: "objects w2 = ((objects w)(newKey := ?src))(oldKey := None)"
        by (auto simp: rename_delete_def)
      obtain m3 w3 where u: "db_run e w2 ?upd = (m3, w3)" by fastforce
      from db_run_update [OF u] f2 o2
      have f3: "sent w3 = sent w @ [S3 ?copy, S3 ?del, Sql ?upd]"
        "upload_history w3 = upload_history w"
        "objects w3 = ((objects w)(newKey := ?src))(oldKey := None)"
        "m3 \<noteq> None \<longrightarrow> video_metadata w3 = video_metadata w"
        "m3 = None \<longrightarrow> video_metadata w3 = moved_metadata (video_metadata w) oldKey newKey"
        by simp_all
      from db_run_update_result [OF f2(1), of e oldKey newKey] u
      have m3: "fst (db_run e w ?upd) = m3" by simp
      show ?thesis
      proof (cases m3)
        case (Some m)
        with run c d u None n2 assms(6) have "r = Error_response 500 m" "w' = w3" by simp_all
        with f3 Some m3 c None nf show ?thesis by (simp add: rename_steps_def)
      next
        case n3: None
        with run c d u None n2 assms(6) have "r = Json_renamed newKey" "w' = w3" by simp_all
        with f3 n3 m3 c None nf show ?thesis by (simp add: rename_steps_def)
      qed
    qed
  qed
qed

theorem rename_order_and_failures_witness:
  "rename_key ''videos/1690000000000-clip.mp4'' ''My Clip!!'' = ''videos/My_Clip__.mp4''
   \<and> fst (rename_video ex_config ex_env ex_world ''videos/1690000000000-clip.mp4''
             (Str ''My Clip!!'')) = Json_renamed ''videos/My_Clip__.mp4''
   \<and> sent (snd (rename_video ex_config ex_env ex_world ''videos/1690000000000-clip.mp4''
                  (Str ''My Clip!!'')))
        = [S3 (CopyObject ''media'' ''media/videos/1690000000000-clip.mp4'' ''videos/My_Clip__.mp4''),
           S3 (DeleteObject ''media'' ''videos/1690000000000-clip.mp4''),
           Sql (Update_video_key ''videos/My_Clip__.mp4'' ''videos/1690000000000-clip.mp4'')]
   \<and> objects (snd (rename_video ex_config ex_env ex_world ''videos/1690000000000-clip.mp4''
                     (Str ''My Clip!!''))) = [''videos/My_Clip__.mp4'' \<mapsto> ''DATA'']
   \<and> video_metadata (snd (rename_video ex_config ex_env ex_world ''videos/1690000000000-clip.mp4''
                     (Str ''My Clip!!''))) = [''videos/My_Clip__.mp4'' \<mapsto> (''u1'', ''Ann'')]
   \<and> fst (r2_send ex_env_s3_down ex_world
             (rename_copy ex_config ''videos/1690000000000-clip.mp4'' ''videos/My_Clip__.mp4''))
        = Some ''connect ETIMEDOUT''
   \<and> fst (rename_video ex_config ex_env_s3_down ex_world ''videos/1690000000000-clip.mp4''
             (Str ''My Clip!!'')) = Error_response 500 ''connect ETIMEDOUT''
   \<and> objects (snd (rename_video ex_config ex_env_s3_down ex_world ''videos/1690000000000-clip.mp4''
                     (Str ''My Clip!!''))) = objects ex_world
   \<and> video_metadata (snd (rename_video ex_config ex_env_s3_down ex_world
                     ''videos/1690000000000-clip.mp4'' (Str ''My Clip!!''))) = video_metadata ex_world
   \<and> fst (r2_send ex_env_delete_denied ex_world
             (rename_copy ex_config ''videos/1690000000000-clip.mp4'' ''videos/My_Clip__.mp4''))
        = None
   \<and> s3_fault ex_env_delete_denied (rename_delete ex_config ''videos/1690000000000-clip.mp4'')
        = Some ''Access Denied''
   \<and> fst (rename_video ex_config ex_env_delete_denied ex_world ''videos/1690000000000-clip.mp4''
             (Str ''My Clip!!'')) = Error_response 500 ''Access Denied''
   \<and> video_metadata (snd (rename_video ex_config ex_env_delete_denied ex_world
                     ''videos/1690000000000-clip.mp4'' (Str ''My Clip!!''))) = video_metadata ex_world
   \<and> objects (snd (rename_video ex_config ex_env_delete_denied ex_world
                     ''videos/1690000000000-clip.mp4'' (Str ''My Clip!!'')))
        = [''videos/1690000000000-clip.mp4'' \<mapsto> ''DATA'', ''videos/My_Clip__.mp4'' \<mapsto> ''DATA'']
   \<and> fst (db_run ex_env_db_locked ex_world
             (rename_update ''videos/1690000000000-clip.mp4'' ''videos/My_Clip__.mp4''))
        = Some ''database is locked''
   \<and> fst (rename_video ex_config ex_env_db_locked ex_world ''videos/1690000000000-clip.mp4''
             (Str ''My Clip!!'')) = Error_response 500 ''database is locked''
   \<and> video_metadata (snd (rename_video ex_config ex_env_db_locked ex_world
                     ''videos/1690000000000-clip.mp4'' (Str ''My Clip!!''))) = video_metadata ex_world
   \<and> objects (snd (rename_video ex_config ex_env_db_locked ex_world
                     ''videos/1690000000000-clip.mp4'' (Str ''My Clip!!'')))
        = [''videos/My_Clip__.mp4'' \<mapsto> ''DATA'']"
proof -
  let ?old = "''videos/1690000000000-clip.mp4''" and ?new = "''videos/My_Clip__.mp4''"
  have p: "prefix ''videos/'' ?old" and n: "''My Clip!!'' \<noteq> []" and d: "?new \<noteq> ?old"
    by simp_all
  note t = rename_order_and_failures [OF ex_configured p n ex_rename_key d
             prod.collapse [symmetric]]
  have cf: "fst (r2_send ex_env_s3_down ex_world (rename_copy ex_config ?old ?new))
              = Some ''connect ETIMEDOUT''"
    by (simp add: ex_sel call_defs)
  have cs: "fst (r2_send ex_env ex_world (rename_copy ex_config ?old ?new)) = None"
    "fst (r2_send ex_env_delete_denied ex_world (rename_copy ex_config ?old ?new)) = None"
    "fst (r2_send ex_env_db_locked ex_world (rename_copy ex_config ?old ?new)) = None"
    by (simp_all add: ex_sel ex_copy_source ex_source_read call_defs)
  have df: "s3_fault ex_env_delete_denied (rename_delete ex_config ?old) = Some ''Access Denied''"
    and ds: "s3_fault ex_env (rename_delete ex_config ?old) = None"
      "s3_fault ex_env_db_locked (rename_delete ex_config ?old) = None"
    by (simp_all add: ex_sel call_defs)
  have uf: "fst (db_run ex_env_db_locked ex_world (rename_update ?old ?new))
              = Some ''database is locked''"
    and us: "fst (db_run ex_env ex_world (rename_update ?old ?new)) = None"
    by (simp_all add: ex_sel call_defs)
  from t [of ex_env ex_world] cs(1) ds(1) us
  have 1: "fst (rename_video ex_config ex_env ex_world ?old (Str ''My Clip!!''))
             = Json_renamed ?new"
    "sent (snd (rename_video ex_config ex_env ex_world ?old (Str ''My Clip!!'')))
       = sent ex_world @ rename_steps ex_config ?old ?new"
    "objects (snd (rename_video ex_config ex_env ex_world ?old (Str ''My Clip!!'')))
       = ((objects ex_world)(?new := copied_object ex_config ex_env ex_world ?old))(?old := None)"
    "video_metadata (snd (rename_video ex_config ex_env ex_world ?old (Str ''My Clip!!'')))
       = moved_metadata (video_metadata ex_world) ?old ?new"
    by blast+
  from t [of ex_env_s3_down ex_world "''connect ETIMEDOUT''"] cf
  have 2: "fst (rename_video ex_config ex_env_s3_down ex_world ?old (Str ''My Clip!!''))
             = Error_response 500 ''connect ETIMEDOUT''"
    "objects (snd (rename_video ex_config ex_env_s3_down ex_world ?old (Str ''My Clip!!'')))
       = objects ex_world"
    "video_metadata (snd (rename_video ex_config ex_env_s3_down ex_world ?old (Str ''My Clip!!'')))
       = video_metadata ex_world" by blast+
  from t [of ex_env_delete_denied ex_world "''Access Denied''"] cs(2) df
  have 3: "fst (rename_video ex_config ex_env_delete_denied ex_world ?old (Str ''My Clip!!''))
             = Error_response 500 ''Access Denied''"
    "video_metadata (snd (rename_video ex_config ex_env_delete_denied ex_world ?old
        (Str ''My Clip!!''))) = video_metadata ex_world"
    "objects (snd (rename_video ex_config ex_env_delete_denied ex_world ?old (Str ''My Clip!!'')))
       = (objects ex_world)(?new := copied_object ex_config ex_env_delete_denied ex_world ?old)"
    by blast+
  from t [of ex_env_db_locked ex_world "''database is locked''"] cs(3) ds(2) uf
  have 4: "fst (rename_video ex_config ex_env_db_locked ex_world ?old (Str ''My Clip!!''))
             = Error_response 500 ''database is locked''"
    "video_metadata (snd (rename_video ex_config ex_env_db_locked ex_world ?old
        (Str ''My Clip!!''))) = video_metadata ex_world"
    "objects (snd (rename_video ex_config ex_env_db_locked ex_world ?old (Str ''My Clip!!'')))
       = ((objects ex_world)(?new := copied_object ex_config ex_env_db_locked ex_world ?old))
           (?old := None)"
    by blast+
  from 1(2) have s1: "sent (snd (rename_video ex_config ex_env ex_world ?old (Str ''My Clip!!'')))
        = [S3 (CopyObject ''media'' ''media/videos/1690000000000-clip.mp4'' ?new),
           S3 (DeleteObject ''media'' ?old), Sql (Update_video_key ?new ?old)]"
    by (simp add: ex_sel call_defs)
  from 1(3) have o1: "objects (snd (rename_video ex_config ex_env ex_world ?old
        (Str ''My Clip!!''))) = [?new \<mapsto> ''DATA'']"
    by (auto simp: ex_sel ex_copied_object)
  from 1(4) have m1: "video_metadata (snd (rename_video ex_config ex_env ex_world ?old
        (Str ''My Clip!!''))) = [?new \<mapsto> (''u1'', ''Ann'')]"
    by (auto simp: ex_sel moved_metadata_def)
  from 3(3) have o3: "objects (snd (rename_video ex_config ex_env_delete_denied ex_world ?old
        (Str ''My Clip!!''))) = [?old \<mapsto> ''DATA'', ?new \<mapsto> ''DATA'']"
    by (simp add: ex_sel ex_copied_object)
  from 4(3) have o4: "objects (snd (rename_video ex_config ex_env_db_locked ex_world ?old
        (Str ''My Clip!!''))) = [?new \<mapsto> ''DATA'']"
    by (auto simp: ex_sel ex_copied_object)
  from ex_rename_key 1(1) s1 o1 m1 cf 2 cs(2) df 3(1,2) o3 uf 4(1,2) o4 show ?thesis by simp
qed

subsection \<open>Delete\<close>

text \<open>
  Claim C4, as the handler has it. Delete a key under \<^verbatim>\<open>videos/\<close> on a configured server
  with success, then delete it again. After the first delete neither the object nor the
  metadata row exists, and the second delete changes neither store. It reports success
  when its object-store call and its metadata statement do not fail (the bucket accepts
  the delete of an absent key); when the object-store call fails, or the statement, the
  handler catches the error and answers 500 with its message.
\<close>

theorem delete_twice:
  assumes "\<not> not_configured cfg" and "prefix ''videos/'' key"
    and "delete_video cfg e1 w key = (Json_success, w1)"
    and "delete_video cfg e2 w1 key = (r2, w2)"
  shows "(s3_fault e2 (delete_command cfg key) = None
            \<and> db_fault e2 (Delete_video_metadata key) = None \<longrightarrow> r2 = Json_success)
         \<and> (s3_fault e2 (delete_command cfg key) = Some msg \<longrightarrow> r2 = Error_response 500 msg)
         \<and> (s3_fault e2 (delete_command cfg key) = None
            \<and> db_fault e2 (Delete_video_metadata key) = Some msg \<longrightarrow> r2 = Error_response 500 msg)
         \<and> objects w1 key = None \<and> video_metadata w1 key = None
         \<and> objects w2 = objects w1 \<and> video_metadata w2 = video_metadata w1"
proof -
  from assms(2) have ne: "key \<noteq> []" by auto
  have first: "objects w1 key = None \<and> video_metadata w1 key = None"
    using assms(1-3) ne
    by (auto simp: delete_video_def r2_send_def db_run_def Let_def split: option.splits)
  have "(s3_fault e2 (delete_command cfg key) = None
            \<and> db_fault e2 (Delete_video_metadata key) = None \<longrightarrow> r2 = Json_success)
         \<and> (s3_fault e2 (delete_command cfg key) = Some msg \<longrightarrow> r2 = Error_response 500 msg)
         \<and> (s3_fault e2 (delete_command cfg key) = None
            \<and> db_fault e2 (Delete_video_metadata key) = Some msg \<longrightarrow> r2 = Error_response 500 msg)
         \<and> objects w2 = (objects w1)(key := None)
         \<and> video_metadata w2 = (video_metadata w1)(key := None)"
    using assms(1,2,4) ne first
    by (auto simp: delete_video_def delete_command_def r2_send_def db_run_def Let_def
             split: option.splits)
  with first show ?thesis by (simp add: fun_upd_idem)
qed

theorem delete_twice_witness:
  "fst (delete_video ex_config ex_env ex_world ''videos/1690000000000-clip.mp4'') = Json_success
   \<and> objects (snd (delete_video ex_config ex_env ex_world ''videos/1690000000000-clip.mp4''))
        ''videos/1690000000000-clip.mp4'' = None
   \<and> s3_fault ex_env (delete_command ex_config ''videos/1690000000000-clip.mp4'') = None
   \<and> db_fault ex_env (Delete_video_metadata ''videos/1690000000000-clip.mp4'') = None
   \<and> fst (delete_video ex_config ex_env
            (snd (delete_video ex_config ex_env ex_world ''videos/1690000000000-clip.mp4''))
            ''videos/1690000000000-clip.mp4'') = Json_success
   \<and> s3_fault ex_env_s3_down (delete_command ex_config ''videos/1690000000000-clip.mp4'')
        = Some ''connect ETIMEDOUT''
   \<and> fst (delete_video ex_config ex_env_s3_down
            (snd (delete_video ex_config ex_env ex_world ''videos/1690000000000-clip.mp4''))
            ''videos/1690000000000-clip.mp4'') = Error_response 500 ''connect ETIMEDOUT''
   \<and> video_metadata (snd (delete_video ex_config ex_env_s3_down
            (snd (delete_video ex_config ex_env ex_world ''videos/1690000000000-clip.mp4''))
            ''videos/1690000000000-clip.mp4''))
       = video_metadata (snd (delete_video ex_config ex_env ex_world ''videos/1690000000000-clip.mp4''))"
proof -
  let ?k = "''videos/1690000000000-clip.mp4''"
  let ?w1 = "snd (delete_video ex_config ex_env ex_world ?k)"
  have p: "prefix ''videos/'' ?k" by simp
  have f: "fst (delete_video ex_config ex_env ex_world ?k) = Json_success"
    by (simp add: delete_video_def ex_sel call_defs)
  then have first: "delete_video ex_config ex_env ex_world ?k = (Json_success, ?w1)"
    by (simp add: prod_eq_iff)
  note t = delete_twice [OF ex_configured p first prod.collapse [symmetric]]
  have a: "s3_fault ex_env (delete_command ex_config ?k) = None"
          "db_fault ex_env (Delete_video_metadata ?k) = None"
          "s3_fault ex_env_s3_down (delete_command ex_config ?k) = Some ''connect ETIMEDOUT''"
    by (simp_all add: ex_sel)
  from t [of ex_env] t [of ex_env_s3_down "''connect ETIMEDOUT''"] a f show ?thesis
    by simp
qed

text \<open>
  Claim C4 as it was stated fails: a second delete whose object-store call fails does
  not report success, it is answered 500.
\<close>

theorem delete_twice_counterexample:
  "fst (delete_video ex_config ex_env ex_world ''videos/1690000000000-clip.mp4'') = Json_success
   \<and> s3_fault ex_env_s3_down (delete_command ex_config ''videos/1690000000000-clip.mp4'')
        = Some ''connect ETIMEDOUT''
   \<and> fst (delete_video ex_config ex_env_s3_down
            (snd (delete_video ex_config ex_env ex_world ''videos/1690000000000-clip.mp4''))
            ''videos/1690000000000-clip.mp4'') = Error_response 500 ''connect ETIMEDOUT''"
  by (simp add: delete_video_def ex_sel call_defs)

end
